theory Spec2Isabelle
  imports Complex_Main
begin

section \<open>JavaScript numbers, as far as \<open>calculateRow\<close> uses them\<close>

text \<open>
  The marks-entry page of the teacher module recomputes one student's row with
  \<^verbatim>\<open>calculateRow(studentId)\<close>. The function reads six text inputs with
  \<^verbatim>\<open>parseInt(...) || 0\<close>, validates them, and writes a total, a final mark, a
  grade badge and a risk badge back into the page.

  JavaScript numbers are IEEE 754 binary64 values: a number is finite, an infinity or NaN.
  What \<^verbatim>\<open>parseInt\<close> returns, and every sum and \<^verbatim>\<open>Math.round\<close> result, is an
  integer-valued number, modelled as \<open>int js\<close>; it carries the integer that the binary64
  value denotes, so a digit string beyond \<open>2 ^ 53\<close> is read as the nearest binary64
  value and one beyond the binary64 range as an infinity. The quotients
  \<^verbatim>\<open>attended / total_classes\<close> and \<^verbatim>\<open>total / 160\<close> and the products that follow
  them are not integers; they are modelled as \<open>double js\<close>, with the binary64 rounding
  of every operation (53 significant bits, ties to even, gradual underflow, overflow to
  an infinity). The sign of a zero is not kept: no comparison, rounding or printing in
  the function tells the two zeros apart, and the function divides by a number only
  after testing that it is greater than 0.
\<close>

datatype 'a js = Fin 'a | PosInf | NegInf | NaN

text \<open>A finite binary64 value, as mantissa and binary exponent: \<open>Double m e\<close> is \<open>m * 2 ^ e\<close>.\<close>

datatype double = Double int int

fun double_value :: "double \<Rightarrow> rat" where
  "double_value (Double m e) =
     (if 0 \<le> e then of_int m * 2 ^ nat e else of_int m / 2 ^ nat (- e))"

text \<open>Number of binary digits of a positive integer (0 for anything else).\<close>

function bit_length :: "int \<Rightarrow> nat" where
  "bit_length n = (if n \<le> 0 then 0 else Suc (bit_length (n div 2)))"
  by pat_completeness auto
termination
  by (relation "measure nat") auto

declare bit_length.simps [simp del]

text \<open>
  The quotient \<open>num / den\<close> of two positive integers, rounded to the nearest integer with
  ties to the even one.
\<close>

definition round_half_even :: "int \<Rightarrow> int \<Rightarrow> int" where
  "round_half_even num den =
     (let n = num div den; r = num mod den
      in if 2 * r < den then n
         else if den < 2 * r then n + 1
         else if even n then n else n + 1)"

text \<open>
  The binary exponent \<open>e\<close> with \<open>2 ^ e \<le> p / q < 2 ^ (e + 1)\<close>, for positive \<open>p\<close> and
  \<open>q\<close>: the difference of the bit lengths is either that exponent or one above it.
\<close>

definition binary_exponent :: "int \<Rightarrow> int \<Rightarrow> int" where
  "binary_exponent p q =
     (let k = int (bit_length p) - int (bit_length q)
      in if (if 0 \<le> k then q * 2 ^ nat k \<le> p else q \<le> p * 2 ^ nat (- k)) then k else k - 1)"

text \<open>
  The binary64 value nearest to \<open>p / q\<close>, for \<open>q > 0\<close>. The magnitude is scaled so that
  its integer part has 53 bits, but never by more than \<open>2 ^ 1074\<close>, the scale of the
  subnormal numbers; it is rounded to an integer with ties to even, and the scale is kept
  as the exponent. A rounded magnitude of \<open>2 ^ 1024\<close> or more overflows to an infinity.
\<close>

definition to_double :: "int \<Rightarrow> int \<Rightarrow> double js" where
  "to_double p q =
     (if p = 0 then Fin (Double 0 0)
      else let a = \<bar>p\<bar>;
               e = max (binary_exponent a q - 52) (- 1074);
               m = (if 0 \<le> e then round_half_even a (q * 2 ^ nat e)
                    else round_half_even (a * 2 ^ nat (- e)) q)
           in if 0 \<le> e \<and> 2 ^ 1024 \<le> m * 2 ^ nat e
              then (if 0 < p then PosInf else NegInf)
              else Fin (Double (sgn p * m) e))"

text \<open>
  The number nearest to a mathematical integer. Every integer up to \<open>2 ^ 53\<close> in
  magnitude is a binary64 value; a larger one is rounded, to an integer again.
\<close>

definition js_integer :: "int \<Rightarrow> int js" where
  "js_integer n =
     (if \<bar>n\<bar> \<le> 2 ^ 53 then Fin n
      else case to_double n 1 of
             Fin (Double m e) \<Rightarrow> Fin (m * 2 ^ nat e)
           | PosInf \<Rightarrow> PosInf
           | NegInf \<Rightarrow> NegInf
           | NaN \<Rightarrow> NaN)"

text \<open>The operator \<^verbatim>\<open>+\<close> on two integer-valued numbers.\<close>

definition js_add :: "int js \<Rightarrow> int js \<Rightarrow> int js" where
  "js_add x y =
     (case (x, y) of
        (NaN, _) \<Rightarrow> NaN
      | (_, NaN) \<Rightarrow> NaN
      | (Fin a, Fin b) \<Rightarrow> js_integer (a + b)
      | (PosInf, NegInf) \<Rightarrow> NaN
      | (NegInf, PosInf) \<Rightarrow> NaN
      | (PosInf, _) \<Rightarrow> PosInf
      | (NegInf, _) \<Rightarrow> NegInf
      | (Fin a, PosInf) \<Rightarrow> PosInf
      | (Fin a, NegInf) \<Rightarrow> NegInf)"

text \<open>
  The operator \<^verbatim>\<open>/\<close> on two integer-valued numbers. A zero divisor is the positive
  zero: \<^verbatim>\<open>parseInt(...) || 0\<close> never gives the negative one.
\<close>

definition js_div :: "int js \<Rightarrow> int js \<Rightarrow> double js" where
  "js_div x y =
     (case (x, y) of
        (NaN, _) \<Rightarrow> NaN
      | (_, NaN) \<Rightarrow> NaN
      | (Fin a, Fin b) \<Rightarrow>
          (if b = 0 then (if a = 0 then NaN else if 0 < a then PosInf else NegInf)
           else if 0 < b then to_double a b
           else to_double (- a) (- b))
      | (Fin a, _) \<Rightarrow> Fin (Double 0 0)
      | (PosInf, Fin b) \<Rightarrow> (if 0 \<le> b then PosInf else NegInf)
      | (NegInf, Fin b) \<Rightarrow> (if 0 \<le> b then NegInf else PosInf)
      | (_, _) \<Rightarrow> NaN)"

text \<open>The operator \<^verbatim>\<open>*\<close> with an integer literal on the right.\<close>

definition js_mul :: "double js \<Rightarrow> int \<Rightarrow> double js" where
  "js_mul x c =
     (case x of
        Fin (Double m e) \<Rightarrow>
          (if 0 \<le> e then to_double (m * c * 2 ^ nat e) 1
           else to_double (m * c) (2 ^ nat (- e)))
      | PosInf \<Rightarrow> (if 0 < c then PosInf else if c < 0 then NegInf else NaN)
      | NegInf \<Rightarrow> (if 0 < c then NegInf else if c < 0 then PosInf else NaN)
      | NaN \<Rightarrow> NaN)"

text \<open>
  \<^verbatim>\<open>Math.round\<close>: the nearest integer, a tie going towards plus infinity, that is the
  floor of the value plus one half.
\<close>

definition Math_round :: "double js \<Rightarrow> int js" where
  "Math_round x =
     (case x of
        Fin (Double m e) \<Rightarrow>
          (if 0 \<le> e then Fin (m * 2 ^ nat e)
           else Fin ((2 * m + 2 ^ nat (- e)) div 2 ^ nat (1 - e)))
      | PosInf \<Rightarrow> PosInf
      | NegInf \<Rightarrow> NegInf
      | NaN \<Rightarrow> NaN)"

text \<open>
  The comparisons \<^verbatim>\<open>x < y\<close>, \<^verbatim>\<open>x <= y\<close> and \<^verbatim>\<open>x == y\<close>; every comparison with
  NaN is false. \<^verbatim>\<open>x > y\<close> is \<open>js_less y x\<close> and \<^verbatim>\<open>x >= y\<close> is \<open>js_less_eq y x\<close>.
\<close>

definition js_less :: "int js \<Rightarrow> int js \<Rightarrow> bool" where
  "js_less x y =
     (case (x, y) of
        (NaN, _) \<Rightarrow> False
      | (_, NaN) \<Rightarrow> False
      | (Fin a, Fin b) \<Rightarrow> a < b
      | (_, NegInf) \<Rightarrow> False
      | (PosInf, _) \<Rightarrow> False
      | (NegInf, _) \<Rightarrow> True
      | (Fin a, PosInf) \<Rightarrow> True)"

definition js_eq :: "int js \<Rightarrow> int js \<Rightarrow> bool" where
  "js_eq x y = (x \<noteq> NaN \<and> x = y)"

definition js_less_eq :: "int js \<Rightarrow> int js \<Rightarrow> bool" where
  "js_less_eq x y = (js_less x y \<or> js_eq x y)"

subsection \<open>Numbers to strings\<close>

definition digit_char :: "nat \<Rightarrow> char" where
  "digit_char d = char_of (48 + d)"

function nat_to_string :: "nat \<Rightarrow> string" where
  "nat_to_string n = (if n < 10 then [digit_char n] else nat_to_string (n div 10) @ [digit_char (n mod 10)])"
  by pat_completeness auto
termination
  by (relation "measure id") auto

declare nat_to_string.simps [simp del]

definition int_to_string :: "int \<Rightarrow> string" where
  "int_to_string i = (if i < 0 then CHR ''-'' # nat_to_string (nat (- i)) else nat_to_string (nat i))"

text \<open>
  The string of an integer-valued number, as an assignment to \<^verbatim>\<open>textContent\<close> or
  \<^verbatim>\<open>value\<close> makes it: the decimal digits, for a magnitude below \<open>10 ^ 21\<close>. The
  function prints a total and a final mark on a valid row only, at most 160 and 20.
\<close>

definition number_to_string :: "int js \<Rightarrow> string" where
  "number_to_string x =
     (case x of
        Fin v \<Rightarrow> int_to_string v
      | PosInf \<Rightarrow> ''Infinity''
      | NegInf \<Rightarrow> ''-Infinity''
      | NaN \<Rightarrow> ''NaN'')"

subsection \<open>\<^verbatim>\<open>parseInt\<close> with no radix argument\<close>

text \<open>
  \<^verbatim>\<open>parseInt(s)\<close> skips leading white space, reads an optional sign, switches to
  radix 16 after a prefix \<^verbatim>\<open>0x\<close> or \<^verbatim>\<open>0X\<close>, and converts the longest run of
  digits that follows; what comes after the digits is ignored. With no digit at all the
  result is NaN; otherwise it is the number nearest to the integer the digits denote
  (the language lets an implementation read the digits after the twentieth as zeros; the
  model takes the nearest number to the integer as written). Strings are taken over the
  8-bit characters of \<open>char\<close>.
\<close>

definition is_white_space :: "char \<Rightarrow> bool" where
  "is_white_space c \<longleftrightarrow> c \<in> set [CHR 0x09, CHR 0x0A, CHR 0x0B, CHR 0x0C, CHR 0x0D, CHR 0x20, CHR 0xA0]"

definition digit_value :: "char \<Rightarrow> nat option" where
  "digit_value c =
     (let n = of_char c :: nat
      in if 48 \<le> n \<and> n \<le> 57 then Some (n - 48)
         else if 65 \<le> n \<and> n \<le> 90 then Some (n - 55)
         else if 97 \<le> n \<and> n \<le> 122 then Some (n - 87)
         else None)"

definition is_digit :: "nat \<Rightarrow> char \<Rightarrow> bool" where
  "is_digit radix c = (case digit_value c of None \<Rightarrow> False | Some d \<Rightarrow> d < radix)"

definition digits_value :: "nat \<Rightarrow> string \<Rightarrow> int" where
  "digits_value radix z =
     foldl (\<lambda>acc c. acc * int radix + (case digit_value c of None \<Rightarrow> 0 | Some d \<Rightarrow> int d)) 0 z"

definition parseInt :: "string \<Rightarrow> int js" where
  "parseInt s =
     (let s0 = dropWhile is_white_space s;
          sign = (if s0 \<noteq> [] \<and> hd s0 = CHR ''-'' then - 1 else 1 :: int);
          s1 = (if s0 \<noteq> [] \<and> (hd s0 = CHR ''+'' \<or> hd s0 = CHR ''-'') then tl s0 else s0);
          hex = (take 2 s1 = ''0x'' \<or> take 2 s1 = ''0X'');
          radix = (if hex then 16 else 10);
          s2 = (if hex then drop 2 s1 else s1);
          z = takeWhile (is_digit radix) s2
      in if z = [] then NaN else js_integer (sign * digits_value radix z))"

text \<open>
  \<^verbatim>\<open>parseInt(s) || 0\<close>: NaN and zero are falsy, so both give 0; every other number,
  an infinity too, is kept.
\<close>

definition parseInt_or_0 :: "string \<Rightarrow> int js" where
  "parseInt_or_0 s =
     (case parseInt s of
        NaN \<Rightarrow> Fin 0
      | Fin n \<Rightarrow> (if n = 0 then Fin 0 else Fin n)
      | PosInf \<Rightarrow> PosInf
      | NegInf \<Rightarrow> NegInf)"

section \<open>The marks-entry row\<close>

text \<open>
  What \<^verbatim>\<open>calculateRow\<close> touches of one student's table row: the \<^verbatim>\<open>value\<close> of the six
  inputs, whether the class list of an input holds \<^verbatim>\<open>error\<close> (the function adds or
  removes that class on five of them, never on the total-classes input), the text of the
  total and final cells, the value of the hidden final field, and the markup of the grade
  and risk cells. The page renders a row together with its cells, so a row that is found
  has all of them.
\<close>

record row =
  total_classes_input :: string
  attended_classes_input :: string
  internal1_input :: string
  internal2_input :: string
  assignment_input :: string
  seminar_input :: string
  attended_classes_error :: bool
  internal1_error :: bool
  internal2_error :: bool
  assignment_error :: bool
  seminar_error :: bool
  total_text :: string
  final_text :: string
  final_calc_value :: string
  grade_html :: string
  risk_html :: string

text \<open>The page: the row of each student identifier, if there is one.\<close>

type_synonym document = "string \<Rightarrow> row option"

subsection \<open>The values read from the inputs\<close>

definition total_classes :: "row \<Rightarrow> int js" where
  "total_classes r = parseInt_or_0 (total_classes_input r)"

definition attended :: "row \<Rightarrow> int js" where
  "attended r = parseInt_or_0 (attended_classes_input r)"

definition i1 :: "row \<Rightarrow> int js" where
  "i1 r = parseInt_or_0 (internal1_input r)"

definition i2 :: "row \<Rightarrow> int js" where
  "i2 r = parseInt_or_0 (internal2_input r)"

definition assign :: "row \<Rightarrow> int js" where
  "assign r = parseInt_or_0 (assignment_input r)"

definition sem :: "row \<Rightarrow> int js" where
  "sem r = parseInt_or_0 (seminar_input r)"

subsection \<open>Validation\<close>

text \<open>
  Each of the five checks sets or clears the error class of its own input; \<^verbatim>\<open>hasError\<close>
  is true when one of them failed.
\<close>

definition validate :: "row \<Rightarrow> row" where
  "validate r = r
     \<lparr> attended_classes_error := js_less (total_classes r) (attended r),
       internal1_error := (js_less (i1 r) (Fin 0) \<or> js_less (Fin 70) (i1 r)),
       internal2_error := (js_less (i2 r) (Fin 0) \<or> js_less (Fin 70) (i2 r)),
       assignment_error := (js_less (assign r) (Fin 0) \<or> js_less (Fin 10) (assign r)),
       seminar_error := (js_less (sem r) (Fin 0) \<or> js_less (Fin 10) (sem r)) \<rparr>"

definition hasError :: "row \<Rightarrow> bool" where
  "hasError r \<longleftrightarrow>
     js_less (total_classes r) (attended r) \<or>
     (js_less (i1 r) (Fin 0) \<or> js_less (Fin 70) (i1 r)) \<or>
     (js_less (i2 r) (Fin 0) \<or> js_less (Fin 70) (i2 r)) \<or>
     (js_less (assign r) (Fin 0) \<or> js_less (Fin 10) (assign r)) \<or>
     (js_less (sem r) (Fin 0) \<or> js_less (Fin 10) (sem r))"

subsection \<open>The derived values\<close>

definition attendance_percent :: "int js \<Rightarrow> int js \<Rightarrow> int js" where
  "attendance_percent total_classes_v attended_v =
     (if js_less (Fin 0) total_classes_v
      then Math_round (js_mul (js_div attended_v total_classes_v) 100)
      else Fin 0)"

definition total_of :: "int js \<Rightarrow> int js \<Rightarrow> int js \<Rightarrow> int js \<Rightarrow> int js" where
  "total_of i1_v i2_v assign_v sem_v = js_add (js_add (js_add i1_v i2_v) assign_v) sem_v"

definition final_of :: "int js \<Rightarrow> int js" where
  "final_of total_v = Math_round (js_mul (js_div total_v (Fin 160)) 20)"

definition grade_of :: "int js \<Rightarrow> string" where
  "grade_of final_v =
     (if js_less_eq (Fin 18) final_v then ''A+''
      else if js_less_eq (Fin 15) final_v then ''A''
      else if js_less_eq (Fin 12) final_v then ''B''
      else if js_less_eq (Fin 10) final_v then ''C''
      else ''D'')"

definition gradeClass :: "string \<Rightarrow> string" where
  "gradeClass grade =
     (if grade = ''A+'' then ''grade-aplus''
      else if grade = ''A'' then ''grade-a''
      else if grade = ''B'' then ''grade-b''
      else if grade = ''C'' then ''grade-c''
      else ''grade-d'')"

definition risk_of :: "int js \<Rightarrow> int js \<Rightarrow> string" where
  "risk_of attendance_percent_v final_v =
     (if js_less attendance_percent_v (Fin 70) \<or> js_less final_v (Fin 10) then ''Critical''
      else if js_less final_v (Fin 15) then ''Average''
      else if js_eq final_v (Fin 20) then ''Best''
      else ''Safe'')"

definition riskClass :: "string \<Rightarrow> string" where
  "riskClass risk =
     (if risk = ''Critical'' then ''risk-critical''
      else if risk = ''Average'' then ''risk-average''
      else if risk = ''Safe'' then ''risk-safe''
      else ''risk-best'')"

text \<open>The two badge templates; \<open>CHR 0x22\<close> is the double quote.\<close>

definition grade_badge :: "string \<Rightarrow> string" where
  "grade_badge grade =
     ''<span class='' @ [CHR 0x22] @ ''grade-badge '' @ gradeClass grade @ [CHR 0x22] @ ''>''
       @ grade @ ''</span>''"

definition risk_badge :: "string \<Rightarrow> string" where
  "risk_badge risk =
     ''<span class='' @ [CHR 0x22] @ ''risk-badge '' @ riskClass risk @ [CHR 0x22] @ ''>''
       @ risk @ ''</span>''"

text \<open>The values the local variables of a run on row \<open>r\<close> hold.\<close>

definition row_attendance_percent :: "row \<Rightarrow> int js" where
  "row_attendance_percent r = attendance_percent (total_classes r) (attended r)"

definition row_total :: "row \<Rightarrow> int js" where
  "row_total r = total_of (i1 r) (i2 r) (assign r) (sem r)"

definition row_final :: "row \<Rightarrow> int js" where
  "row_final r = final_of (row_total r)"

definition row_grade :: "row \<Rightarrow> string" where
  "row_grade r = grade_of (row_final r)"

definition row_risk :: "row \<Rightarrow> string" where
  "row_risk r = risk_of (row_attendance_percent r) (row_final r)"

subsection \<open>\<^verbatim>\<open>calculateRow\<close>\<close>

text \<open>
  The body of the function once the row is found: validate, then either write the error
  markers and return, or compute and write the derived values.
\<close>

definition calculateRow_body :: "row \<Rightarrow> row" where
  "calculateRow_body r =
     (if hasError r then
        (validate r)
          \<lparr> total_text := ''ERR'',
            final_text := ''ERR'',
            final_calc_value := ''0'',
            grade_html := ''-'',
            risk_html := ''-'' \<rparr>
      else
        (validate r)
          \<lparr> total_text := number_to_string (row_total r),
            final_text := number_to_string (row_final r),
            final_calc_value := number_to_string (row_final r),
            grade_html := grade_badge (row_grade r),
            risk_html := risk_badge (row_risk r) \<rparr>)"

text \<open>\<^verbatim>\<open>calculateRow(studentId)\<close>: nothing happens when the page has no such row.\<close>

definition calculateRow :: "document \<Rightarrow> string \<Rightarrow> document" where
  "calculateRow doc studentId =
     (case doc studentId of
        None \<Rightarrow> doc
      | Some r \<Rightarrow> doc (studentId \<mapsto> calculateRow_body r))"

text \<open>Typing six values into the inputs of a row.\<close>

definition enter :: "row \<Rightarrow> string \<Rightarrow> string \<Rightarrow> string \<Rightarrow> string \<Rightarrow> string \<Rightarrow> string \<Rightarrow> row" where
  "enter r tc ac a b c d = r
     \<lparr> total_classes_input := tc,
       attended_classes_input := ac,
       internal1_input := a,
       internal2_input := b,
       assignment_input := c,
       seminar_input := d \<rparr>"

text \<open>
  The rounding the specification names: to the nearest integer, a half going up, on the
  exact quotient.
\<close>

definition round_half_up :: "rat \<Rightarrow> int" where
  "round_half_up x = \<lfloor>x + 1 / 2\<rfloor>"

subsection \<open>Sample rows\<close>

text \<open>A freshly rendered row: empty inputs, no error class, empty cells.\<close>

definition blank_row :: row where
  "blank_row =
     \<lparr> total_classes_input = '''', attended_classes_input = '''', internal1_input = '''',
       internal2_input = '''', assignment_input = '''', seminar_input = '''',
       attended_classes_error = False, internal1_error = False, internal2_error = False,
       assignment_error = False, seminar_error = False,
       total_text = '''', final_text = '''', final_calc_value = '''',
       grade_html = '''', risk_html = '''' \<rparr>"

text \<open>The scenarios of the specification, and rows at the edges of the checks.\<close>

definition scenario_A :: row where
  "scenario_A = enter blank_row ''50'' ''40'' ''60'' ''55'' ''8'' ''7''"

definition scenario_B :: row where
  "scenario_B = enter blank_row ''50'' ''30'' ''70'' ''70'' ''10'' ''10''"

definition scenario_C :: row where
  "scenario_C = enter blank_row ''50'' ''40'' ''75'' ''55'' ''8'' ''7''"

definition scenario_D :: row where
  "scenario_D = enter blank_row ''40'' ''40'' ''20'' ''20'' ''0'' ''0''"

definition no_classes_row :: row where
  "no_classes_row = enter blank_row ''0'' ''0'' ''60'' ''55'' ''8'' ''7''"

definition negative_attended_row :: row where
  "negative_attended_row = enter blank_row ''10'' ''-5'' ''0'' ''0'' ''0'' ''0''"

definition unparsed_row :: row where
  "unparsed_row = enter blank_row ''50'' '''' ''abc'' ''55'' ''8'' ''7''"

definition negative_total_row :: row where
  "negative_total_row = enter blank_row ''-1'' '''' ''0'' ''0'' ''0'' ''0''"

text \<open>
  Rows beyond the exact integers: attended classes one above \<open>2 ^ 53\<close> classes held,
  which both read as \<open>2 ^ 53\<close>; and 310-digit numbers, which both read as an infinity.
\<close>

definition rounded_row :: row where
  "rounded_row =
     enter blank_row ''9007199254740992'' ''9007199254740993'' ''70'' ''70'' ''10'' ''10''"

definition overflow_row :: row where
  "overflow_row =
     enter blank_row (CHR ''2'' # replicate 309 (CHR ''0'')) (CHR ''1'' # replicate 309 (CHR ''0''))
       ''70'' ''70'' ''10'' ''10''"

section \<open>Facts about the model\<close>

lemma js_less_Fin [simp]:
  "js_less (Fin a) (Fin b) = (a < b)"
  "js_less_eq (Fin a) (Fin b) = (a \<le> b)"
  "js_eq (Fin a) (Fin b) = (a = b)"
  by (auto simp: js_less_def js_less_eq_def js_eq_def)

lemma js_less_NaN [simp]:
  "\<not> js_less NaN y"
  "\<not> js_less x NaN"
  by (simp_all add: js_less_def split: js.splits)

lemma parseInt_or_0_not_NaN:
  "parseInt_or_0 s \<noteq> NaN"
  by (simp add: parseInt_or_0_def split: js.splits)

lemma between_literals:
  assumes "x \<noteq> NaN" and "\<not> js_less x (Fin lo)" and "\<not> js_less (Fin hi) x"
  shows "\<exists>v. x = Fin v \<and> lo \<le> v \<and> v \<le> hi"
  using assms by (cases x) (auto simp: js_less_def)

lemma js_add_exact:
  assumes "\<bar>a + b\<bar> \<le> 2 ^ 53"
  shows "js_add (Fin a) (Fin b) = Fin (a + b)"
  using assms by (simp add: js_add_def js_integer_def)

lemma final_of_table:
  "\<forall>t \<in> set [0..160]. final_of (Fin t) = Fin ((t + 4) div 8)"
  by code_simp

lemma final_of_eq:
  assumes "0 \<le> t" and "t \<le> 160"
  shows "final_of (Fin t) = Fin ((t + 4) div 8)"
proof -
  from assms have "t \<in> set [0..160]" by simp
  with final_of_table show ?thesis by blast
qed

lemma round_half_up_eighth:
  "round_half_up (20 * of_int t / 160) = (t + 4) div 8"
proof -
  have "20 * (of_int t :: rat) / 160 + 1 / 2 = of_int (t + 4) / of_int 8"
    by simp
  then have "round_half_up (20 * of_int t / 160) = \<lfloor>(of_int (t + 4) :: rat) / of_int 8\<rfloor>"
    by (simp only: round_half_up_def)
  also have "\<dots> = (t + 4) div 8"
    by (rule floor_divide_of_int_eq)
  finally show ?thesis .
qed

text \<open>On a valid row the four marks are finite and inside their ranges.\<close>

lemma valid_marks:
  assumes "\<not> hasError r"
  shows "\<exists>a b c d. i1 r = Fin a \<and> i2 r = Fin b \<and> assign r = Fin c \<and> sem r = Fin d
       \<and> 0 \<le> a \<and> a \<le> 70 \<and> 0 \<le> b \<and> b \<le> 70 \<and> 0 \<le> c \<and> c \<le> 10 \<and> 0 \<le> d \<and> d \<le> 10"
proof -
  have "\<exists>a. i1 r = Fin a \<and> 0 \<le> a \<and> a \<le> 70"
    using assms by (intro between_literals) (simp_all add: hasError_def i1_def parseInt_or_0_not_NaN)
  moreover have "\<exists>b. i2 r = Fin b \<and> 0 \<le> b \<and> b \<le> 70"
    using assms by (intro between_literals) (simp_all add: hasError_def i2_def parseInt_or_0_not_NaN)
  moreover have "\<exists>c. assign r = Fin c \<and> 0 \<le> c \<and> c \<le> 10"
    using assms by (intro between_literals) (simp_all add: hasError_def assign_def parseInt_or_0_not_NaN)
  moreover have "\<exists>d. sem r = Fin d \<and> 0 \<le> d \<and> d \<le> 10"
    using assms by (intro between_literals) (simp_all add: hasError_def sem_def parseInt_or_0_not_NaN)
  ultimately show ?thesis
    by blast
qed

lemma total_of_marks:
  assumes "0 \<le> a" "a \<le> 70" "0 \<le> b" "b \<le> 70" "0 \<le> c" "c \<le> 10" "0 \<le> d" "d \<le> 10"
  shows "total_of (Fin a) (Fin b) (Fin c) (Fin d) = Fin (a + b + c + d)"
  using assms by (simp add: total_of_def js_add_exact)

lemma valid_row_total:
  assumes "\<not> hasError r"
  shows "\<exists>t. row_total r = Fin t \<and> 0 \<le> t \<and> t \<le> 160"
proof -
  from valid_marks [OF assms] obtain a b c d where
    m: "i1 r = Fin a" "i2 r = Fin b" "assign r = Fin c" "sem r = Fin d"
    and b: "0 \<le> a" "a \<le> 70" "0 \<le> b" "b \<le> 70" "0 \<le> c" "c \<le> 10" "0 \<le> d" "d \<le> 10"
    by blast
  have "row_total r = Fin (a + b + c + d)"
    by (simp add: row_total_def m total_of_marks [OF b])
  with b show ?thesis
    by simp
qed

lemma valid_row_final:
  assumes "\<not> hasError r" and "row_total r = Fin t"
  shows "row_final r = Fin ((t + 4) div 8)"
  using valid_row_total [OF assms(1)] assms(2) by (auto simp: row_final_def final_of_eq)

text \<open>
  Where the binary64 rounding shows: 23 of 40 classes is 57.5 percent exactly, but the
  quotient 0.575 is not a binary64 value, the product with 100 falls just below 57.5,
  and \<^verbatim>\<open>Math.round\<close> gives 57.
\<close>

lemma attendance_rounding_example:
  "js_mul (js_div (Fin 23) (Fin 40)) 100 = Fin (Double 8092405580431359 (- 47))"
  "double_value (Double 8092405580431359 (- 47)) < 115 / 2"
  "attendance_percent (Fin 40) (Fin 23) = Fin 57"
  by code_simp+

lemma validate_outputs [simp]:
  "total_classes_input (validate r) = total_classes_input r"
  "attended_classes_input (validate r) = attended_classes_input r"
  "internal1_input (validate r) = internal1_input r"
  "internal2_input (validate r) = internal2_input r"
  "assignment_input (validate r) = assignment_input r"
  "seminar_input (validate r) = seminar_input r"
  by (simp_all add: validate_def)

lemma body_inputs [simp]:
  "total_classes_input (calculateRow_body r) = total_classes_input r"
  "attended_classes_input (calculateRow_body r) = attended_classes_input r"
  "internal1_input (calculateRow_body r) = internal1_input r"
  "internal2_input (calculateRow_body r) = internal2_input r"
  "assignment_input (calculateRow_body r) = assignment_input r"
  "seminar_input (calculateRow_body r) = seminar_input r"
  by (simp_all add: calculateRow_body_def)

lemma body_reads [simp]:
  "total_classes (calculateRow_body r) = total_classes r"
  "attended (calculateRow_body r) = attended r"
  "i1 (calculateRow_body r) = i1 r"
  "i2 (calculateRow_body r) = i2 r"
  "assign (calculateRow_body r) = assign r"
  "sem (calculateRow_body r) = sem r"
  by (simp_all add: total_classes_def attended_def i1_def i2_def assign_def sem_def)

lemma enter_reads [simp]:
  "total_classes (enter r tc ac a b c d) = parseInt_or_0 tc"
  "attended (enter r tc ac a b c d) = parseInt_or_0 ac"
  "i1 (enter r tc ac a b c d) = parseInt_or_0 a"
  "i2 (enter r tc ac a b c d) = parseInt_or_0 b"
  "assign (enter r tc ac a b c d) = parseInt_or_0 c"
  "sem (enter r tc ac a b c d) = parseInt_or_0 d"
  by (simp_all add: enter_def total_classes_def attended_def i1_def i2_def assign_def sem_def)

lemma parse_samples:
  "parseInt_or_0 ''0'' = Fin 0"
  "parseInt_or_0 ''7'' = Fin 7"
  "parseInt_or_0 ''8'' = Fin 8"
  "parseInt_or_0 ''10'' = Fin 10"
  "parseInt_or_0 ''20'' = Fin 20"
  "parseInt_or_0 ''30'' = Fin 30"
  "parseInt_or_0 ''40'' = Fin 40"
  "parseInt_or_0 ''50'' = Fin 50"
  "parseInt_or_0 ''55'' = Fin 55"
  "parseInt_or_0 ''60'' = Fin 60"
  "parseInt_or_0 ''65'' = Fin 65"
  "parseInt_or_0 ''70'' = Fin 70"
  "parseInt_or_0 ''75'' = Fin 75"
  "parseInt_or_0 ''-5'' = Fin (- 5)"
  "parseInt_or_0 ''-1'' = Fin (- 1)"
  "parseInt_or_0 '''' = Fin 0"
  "parseInt_or_0 ''abc'' = Fin 0"
  by code_simp+

lemma unparseable_samples:
  "parseInt '''' = NaN"
  "parseInt ''abc'' = NaN"
  by code_simp+

lemma attendance_samples:
  "attendance_percent (Fin 50) (Fin 40) = Fin 80"
  "attendance_percent (Fin 50) (Fin 30) = Fin 60"
  "attendance_percent (Fin 40) (Fin 40) = Fin 100"
  "attendance_percent (Fin 10) (Fin (- 5)) = Fin (- 50)"
  "attendance_percent (Fin 0) (Fin 0) = Fin 0"
  by code_simp+

lemma to_string_samples:
  "int_to_string 0 = ''0''"
  "int_to_string 5 = ''5''"
  "int_to_string 16 = ''16''"
  "int_to_string 20 = ''20''"
  "int_to_string 40 = ''40''"
  "int_to_string 130 = ''130''"
  "int_to_string 160 = ''160''"
  by code_simp+

lemma bit_length_one: "bit_length 1 = 1"
  by code_simp

lemma bit_length_lower:
  "0 < n \<Longrightarrow> 2 ^ (bit_length n - 1) \<le> n"
proof (induction n rule: bit_length.induct)
  case (1 n)
  show ?case
  proof (cases "0 < n div 2")
    case True
    with "1.prems" "1.IH" have ih: "2 ^ (bit_length (n div 2) - 1) \<le> n div 2"
      by simp
    from True have pos: "0 < bit_length (n div 2)"
      by (subst bit_length.simps) simp
    from "1.prems" have bl: "bit_length n = Suc (bit_length (n div 2))"
      by (subst bit_length.simps) simp
    have "(2::int) ^ bit_length (n div 2) = 2 * 2 ^ (bit_length (n div 2) - 1)"
      using pos by (cases "bit_length (n div 2)") simp_all
    also have "\<dots> \<le> 2 * (n div 2)"
      using ih by simp
    also have "\<dots> \<le> n"
      by simp
    finally show ?thesis
      by (simp add: bl)
  next
    case False
    with "1.prems" have "n = 1"
      by simp
    then show ?thesis
      by (simp add: bit_length_one)
  qed
qed

lemma bit_length_greater:
  "2 ^ k \<le> n \<Longrightarrow> k < bit_length n"
proof (induction k arbitrary: n)
  case 0
  then show ?case
    by (subst bit_length.simps) simp
next
  case (Suc k)
  then have "2 ^ k \<le> n div 2"
    by simp
  then have "k < bit_length (n div 2)"
    by (rule Suc.IH)
  moreover have "(0::int) < 2 ^ Suc k"
    by simp
  with Suc.prems have "0 < n"
    by linarith
  ultimately show ?case
    by (subst bit_length.simps) simp
qed

lemma round_half_even_lower:
  "num div den \<le> round_half_even num den"
  by (simp add: round_half_even_def Let_def)

text \<open>An integer of \<open>2 ^ 1024\<close> or more is beyond the binary64 range.\<close>

lemma js_integer_overflow:
  assumes "2 ^ 1024 \<le> n"
  shows "js_integer n = PosInf"
proof -
  define L where "L = bit_length n"
  have "(0::int) < 2 ^ 1024"
    by simp
  with assms have n: "0 < n"
    by linarith
  from assms have L: "1024 < L"
    unfolding L_def by (rule bit_length_greater)
  have low: "2 ^ (L - 1) \<le> n"
    unfolding L_def by (rule bit_length_lower [OF n])
  have k: "nat (int L - 1) = L - 1"
    by simp
  have ex: "binary_exponent n 1 = int L - 1"
    using L low by (simp add: binary_exponent_def bit_length_one L_def [symmetric] Let_def k)
  define e where "e = L - 53"
  have e: "972 \<le> e" "L - 1 = 52 + e"
    using L by (simp_all add: e_def)
  define m where "m = round_half_even n (2 ^ e)"
  have "2 ^ 52 * 2 ^ e \<le> n"
    using low e(2) by (simp add: power_add)
  then have "(2 ^ 52 * 2 ^ e) div 2 ^ e \<le> n div 2 ^ e"
    by (intro zdiv_mono1) simp_all
  then have "2 ^ 52 \<le> n div 2 ^ e"
    by simp
  also have "\<dots> \<le> m"
    unfolding m_def by (rule round_half_even_lower)
  finally have m52: "2 ^ 52 \<le> m" .
  have "(2::int) ^ 1024 \<le> 2 ^ (52 + e)"
    using e(1) by (intro power_increasing) simp_all
  also have "\<dots> = 2 ^ 52 * 2 ^ e"
    by (simp add: power_add)
  also have "\<dots> \<le> m * 2 ^ e"
    using m52 by (intro mult_right_mono) simp_all
  finally have big: "2 ^ 1024 \<le> m * 2 ^ e" .
  have ne: "nat (int L - 53) = e" "53 \<le> L"
    using L by (simp_all add: e_def)
  have td: "to_double n 1 = PosInf"
    using n big by (simp add: to_double_def ex ne Let_def m_def [symmetric])
  have "\<not> \<bar>n\<bar> \<le> 2 ^ 53"
    using assms by simp
  then show ?thesis
    by (simp add: js_integer_def td)
qed

lemma digits_value_zeros:
  "foldl (\<lambda>acc c. acc * 10 + (case digit_value c of None \<Rightarrow> 0 | Some d \<Rightarrow> int d)) acc
     (replicate n (CHR ''0'')) = acc * 10 ^ n"
proof (induction n arbitrary: acc)
  case 0
  show ?case by simp
next
  case (Suc n)
  have z: "digit_value (CHR ''0'') = Some 0"
    by code_simp
  show ?case
    by (simp add: Suc.IH z)
qed

lemma char_facts:
  "\<not> is_white_space (CHR ''1'')" "\<not> is_white_space (CHR ''2'')"
  "is_digit 10 (CHR ''0'')" "is_digit 10 (CHR ''1'')" "is_digit 10 (CHR ''2'')"
  "digit_value (CHR ''1'') = Some 1" "digit_value (CHR ''2'') = Some 2"
  by code_simp+

lemma parseInt_one_zeros:
  "parseInt (CHR ''1'' # replicate n (CHR ''0'')) = js_integer (10 ^ n)"
proof -
  have t: "takeWhile (is_digit 10) (replicate n (CHR ''0'')) = replicate n (CHR ''0'')"
    by (simp add: takeWhile_replicate char_facts)
  have nx: "take 2 (CHR ''1'' # replicate n (CHR ''0'')) \<noteq> ''0x''"
    "take 2 (CHR ''1'' # replicate n (CHR ''0'')) \<noteq> ''0X''"
    by (cases n; simp)+
  show ?thesis
    by (simp add: parseInt_def char_facts nx t digits_value_def digits_value_zeros Let_def)
qed

lemma parseInt_two_zeros:
  "parseInt (CHR ''2'' # replicate n (CHR ''0'')) = js_integer (2 * 10 ^ n)"
proof -
  have t: "takeWhile (is_digit 10) (replicate n (CHR ''0'')) = replicate n (CHR ''0'')"
    by (simp add: takeWhile_replicate char_facts)
  have nx: "take 2 (CHR ''2'' # replicate n (CHR ''0'')) \<noteq> ''0x''"
    "take 2 (CHR ''2'' # replicate n (CHR ''0'')) \<noteq> ''0X''"
    by (cases n; simp)+
  show ?thesis
    by (simp add: parseInt_def char_facts nx t digits_value_def digits_value_zeros Let_def)
qed

lemma overflow_row_reads:
  "total_classes overflow_row = PosInf"
  "attended overflow_row = PosInf"
proof -
  have "(2::int) ^ 1024 \<le> 10 ^ 309"
    by simp
  then have "js_integer (10 ^ 309) = PosInf" "js_integer (2 * 10 ^ 309) = PosInf"
    by (simp_all add: js_integer_overflow)
  then show "total_classes overflow_row = PosInf" "attended overflow_row = PosInf"
    by (simp_all add: overflow_row_def enter_def total_classes_def attended_def
        parseInt_or_0_def parseInt_one_zeros parseInt_two_zeros)
qed

text \<open>
  Beyond the exact integers. A number of attended classes one above \<open>2 ^ 53\<close> classes
  held reads as \<open>2 ^ 53\<close> too, so the attendance check passes. Two 310-digit numbers
  both read as an infinity: the attendance check passes, the guard of the division passes,
  the quotient is NaN, and NaN is not below 70.
\<close>

lemma overflow_row_values:
  "\<not> hasError overflow_row"
  "row_attendance_percent overflow_row = NaN"
  "row_total overflow_row = Fin 160"
  "row_final overflow_row = Fin 20"
  "row_risk overflow_row = ''Best''"
proof -
  have m: "i1 overflow_row = Fin 70" "i2 overflow_row = Fin 70"
    "assign overflow_row = Fin 10" "sem overflow_row = Fin 10"
    by (simp_all add: overflow_row_def parse_samples)
  show v: "\<not> hasError overflow_row"
    by (simp add: hasError_def overflow_row_reads m) (simp add: js_less_def)
  show p: "row_attendance_percent overflow_row = NaN"
    by (simp add: row_attendance_percent_def overflow_row_reads attendance_percent_def
        js_less_def js_div_def js_mul_def Math_round_def)
  show t: "row_total overflow_row = Fin 160"
    by (simp add: row_total_def m total_of_def js_add_exact)
  show f: "row_final overflow_row = Fin 20"
    by (simp add: row_final_def t final_of_eq)
  show "row_risk overflow_row = ''Best''"
    by (simp add: row_risk_def risk_of_def p f)
qed

lemma rounded_row_reads:
  "total_classes rounded_row = Fin 9007199254740992"
  "attended rounded_row = Fin 9007199254740992"
  by code_simp+

lemma rounded_row_values:
  "\<not> hasError rounded_row"
  "row_attendance_percent rounded_row = Fin 100"
  "row_total rounded_row = Fin 160"
  "row_final rounded_row = Fin 20"
  "row_risk rounded_row = ''Best''"
proof -
  have m: "i1 rounded_row = Fin 70" "i2 rounded_row = Fin 70"
    "assign rounded_row = Fin 10" "sem rounded_row = Fin 10"
    by (simp_all add: rounded_row_def parse_samples)
  have q: "attendance_percent (Fin 9007199254740992) (Fin 9007199254740992) = Fin 100"
    by code_simp
  show v: "\<not> hasError rounded_row"
    by (simp add: hasError_def rounded_row_reads m)
  show p: "row_attendance_percent rounded_row = Fin 100"
    by (simp add: row_attendance_percent_def rounded_row_reads q)
  show t: "row_total rounded_row = Fin 160"
    by (simp add: row_total_def m total_of_def js_add_exact)
  show f: "row_final rounded_row = Fin 20"
    by (simp add: row_final_def t final_of_eq)
  show "row_risk rounded_row = ''Best''"
    by (simp add: row_risk_def risk_of_def p f)
qed

lemma scenario_A_valid: "\<not> hasError scenario_A"
  by (simp add: scenario_A_def hasError_def parse_samples)

lemma scenario_A_values:
  "i1 scenario_A = Fin 60"
  "row_attendance_percent scenario_A = Fin 80"
  "row_total scenario_A = Fin 130"
  "row_final scenario_A = Fin 16"
  by (simp_all add: scenario_A_def row_attendance_percent_def row_total_def total_of_def
      js_add_exact row_final_def final_of_eq parse_samples attendance_samples)

section \<open>The claims\<close>

text \<open>
  Claim C1. On a row whose five checks all pass, the four marks are finite numbers, the
  total is the sum of the two internal marks, the assignment mark and the seminar mark,
  it lies between 0 and 160, and it is the text of the total cell; the final mark is the
  exact quotient \<open>20 * total / 160\<close> rounded to the nearest integer (a half going up),
  it lies between 0 and 20, and it is the text of the final cell and the value of the
  hidden field. The binary64 rounding of the quotient and of the product never moves the
  result off that integer.
\<close>

theorem valid_row_total_and_final:
  assumes "\<not> hasError r"
  shows "\<exists>a b c d. i1 r = Fin a \<and> i2 r = Fin b \<and> assign r = Fin c \<and> sem r = Fin d
       \<and> row_total r = Fin (a + b + c + d)
       \<and> 0 \<le> a + b + c + d \<and> a + b + c + d \<le> 160
       \<and> total_text (calculateRow_body r) = int_to_string (a + b + c + d)
       \<and> (\<exists>f. row_final r = Fin f
              \<and> f = round_half_up (20 * of_int (a + b + c + d) / 160)
              \<and> 0 \<le> f \<and> f \<le> 20
              \<and> final_text (calculateRow_body r) = int_to_string f
              \<and> final_calc_value (calculateRow_body r) = int_to_string f)"
proof -
  from valid_marks [OF assms] obtain a b c d where
    m: "i1 r = Fin a" "i2 r = Fin b" "assign r = Fin c" "sem r = Fin d"
    and b: "0 \<le> a" "a \<le> 70" "0 \<le> b" "b \<le> 70" "0 \<le> c" "c \<le> 10" "0 \<le> d" "d \<le> 10"
    by blast
  define t where "t = a + b + c + d"
  have total: "row_total r = Fin t"
    by (simp add: row_total_def m total_of_marks [OF b] t_def)
  have range: "0 \<le> t" "t \<le> 160"
    using b by (simp_all add: t_def)
  have fin: "row_final r = Fin ((t + 4) div 8)"
    by (rule valid_row_final [OF assms total])
  have lo: "0 \<le> (t + 4) div 8" and hi: "(t + 4) div 8 \<le> 20"
    using range by simp_all
  have shown: "total_text (calculateRow_body r) = int_to_string t"
    "final_text (calculateRow_body r) = int_to_string ((t + 4) div 8)"
    "final_calc_value (calculateRow_body r) = int_to_string ((t + 4) div 8)"
    using assms by (simp_all add: calculateRow_body_def total fin number_to_string_def)
  have spec: "(t + 4) div 8 = round_half_up (20 * of_int t / 160)"
    by (simp only: round_half_up_eighth)
  from fin spec lo hi shown(2,3)
  have "\<exists>f. row_final r = Fin f
      \<and> f = round_half_up (20 * of_int t / 160)
      \<and> 0 \<le> f \<and> f \<le> 20
      \<and> final_text (calculateRow_body r) = int_to_string f
      \<and> final_calc_value (calculateRow_body r) = int_to_string f"
    by blast
  with m total range shown(1) show ?thesis
    unfolding t_def by blast
qed

text \<open>Scenario A of the specification: marks 60, 55, 8 and 7.\<close>

theorem valid_row_total_and_final_witness:
  "\<not> hasError scenario_A
   \<and> row_total scenario_A = Fin 130
   \<and> total_text (calculateRow_body scenario_A) = ''130''
   \<and> row_final scenario_A = Fin 16
   \<and> final_text (calculateRow_body scenario_A) = ''16''
   \<and> final_calc_value (calculateRow_body scenario_A) = ''16''"
proof -
  from valid_row_total_and_final [OF scenario_A_valid] obtain a b c d f where
    "row_total scenario_A = Fin (a + b + c + d)"
    "total_text (calculateRow_body scenario_A) = int_to_string (a + b + c + d)"
    "row_final scenario_A = Fin f"
    "final_text (calculateRow_body scenario_A) = int_to_string f"
    "final_calc_value (calculateRow_body scenario_A) = int_to_string f"
    by blast
  with scenario_A_valid show ?thesis
    by (simp add: scenario_A_values to_string_samples)
qed

text \<open>
  Claim C2. On a row where at least one of the five checks fails, whatever the other
  fields hold, the total and final cells show \<open>ERR\<close>, the hidden final field is set to
  \<open>0\<close>, and the grade and risk cells show the placeholder \<open>-\<close>: nothing derived
  is computed or written. The checks are those of the code, on the numbers
  \<^verbatim>\<open>parseInt\<close> returns.
\<close>

theorem invalid_row_error_markers:
  assumes "hasError r"
  shows "total_text (calculateRow_body r) = ''ERR''
       \<and> final_text (calculateRow_body r) = ''ERR''
       \<and> final_calc_value (calculateRow_body r) = ''0''
       \<and> grade_html (calculateRow_body r) = ''-''
       \<and> risk_html (calculateRow_body r) = ''-''"
  using assms by (simp add: calculateRow_body_def)

text \<open>Scenario C of the specification: an internal mark of 75 on an otherwise valid row.\<close>

theorem invalid_row_error_markers_witness:
  "i1 scenario_C = Fin 75
   \<and> hasError scenario_C
   \<and> internal1_error (calculateRow_body scenario_C)
   \<and> total_text (calculateRow_body scenario_C) = ''ERR''
   \<and> final_text (calculateRow_body scenario_C) = ''ERR''
   \<and> final_calc_value (calculateRow_body scenario_C) = ''0''
   \<and> grade_html (calculateRow_body scenario_C) = ''-''
   \<and> risk_html (calculateRow_body scenario_C) = ''-''"
proof -
  have v: "i1 scenario_C = Fin 75"
    by (simp add: scenario_C_def parse_samples)
  then have h: "hasError scenario_C"
    by (simp add: hasError_def)
  have m: "internal1_error (calculateRow_body scenario_C)"
    using v by (simp add: calculateRow_body_def validate_def)
  from invalid_row_error_markers [OF h] v h m show ?thesis
    by simp
qed

lemma valid_row_outputs:
  assumes "\<not> hasError r"
  shows "grade_html (calculateRow_body r) = grade_badge (row_grade r)"
    and "risk_html (calculateRow_body r) = risk_badge (row_risk r)"
  using assms by (simp_all add: calculateRow_body_def)

lemma valid_row_final_mark:
  assumes "\<not> hasError r"
  shows "\<exists>t. row_total r = Fin t \<and> 0 \<le> t \<and> t \<le> 160 \<and> row_final r = Fin ((t + 4) div 8)"
  using valid_row_total [OF assms] valid_row_final [OF assms] by blast

lemma scenario_B_values:
  "\<not> hasError scenario_B"
  "row_attendance_percent scenario_B = Fin 60"
  "row_total scenario_B = Fin 160"
  "row_final scenario_B = Fin 20"
  by (simp_all add: scenario_B_def hasError_def row_attendance_percent_def row_total_def
      total_of_def js_add_exact row_final_def final_of_eq parse_samples attendance_samples)

text \<open>
  Claim C3. On a valid row the final mark is a finite number and the risk is chosen by
  the first rule that matches: an attendance percentage below 70 (as the comparison
  \<^verbatim>\<open>attendance_percent < 70\<close> decides it, false for NaN) or a final mark below 10
  gives Critical; otherwise a final mark below 15 gives Average; otherwise a final mark
  of 20 gives Best; otherwise Safe; and the risk cell shows that risk as a badge. For
  scenario B (50 classes, 30 attended, marks 70, 70, 10, 10) the attendance percentage is
  60, the total 160, the final mark 20, the grade A+ and the risk Critical.
\<close>

theorem risk_first_match_rules:
  "(\<not> hasError r \<longrightarrow>
      (\<exists>f. row_final r = Fin f
         \<and> row_risk r =
             (if js_less (row_attendance_percent r) (Fin 70) \<or> f < 10 then ''Critical''
              else if f < 15 then ''Average''
              else if f = 20 then ''Best''
              else ''Safe'')
         \<and> (\<forall>p. row_attendance_percent r = Fin p \<longrightarrow>
               row_risk r =
                 (if p < 70 \<or> f < 10 then ''Critical''
                  else if f < 15 then ''Average''
                  else if f = 20 then ''Best''
                  else ''Safe''))
         \<and> risk_html (calculateRow_body r) = risk_badge (row_risk r)))
   \<and> \<not> hasError scenario_B
   \<and> row_attendance_percent scenario_B = Fin 60
   \<and> row_total scenario_B = Fin 160
   \<and> row_final scenario_B = Fin 20
   \<and> row_grade scenario_B = ''A+''
   \<and> row_risk scenario_B = ''Critical''"
proof -
  have general: "\<exists>f. row_final r = Fin f
         \<and> row_risk r =
             (if js_less (row_attendance_percent r) (Fin 70) \<or> f < 10 then ''Critical''
              else if f < 15 then ''Average''
              else if f = 20 then ''Best''
              else ''Safe'')
         \<and> (\<forall>p. row_attendance_percent r = Fin p \<longrightarrow>
               row_risk r =
                 (if p < 70 \<or> f < 10 then ''Critical''
                  else if f < 15 then ''Average''
                  else if f = 20 then ''Best''
                  else ''Safe''))
         \<and> risk_html (calculateRow_body r) = risk_badge (row_risk r)"
    if valid: "\<not> hasError r"
  proof -
    from valid_row_final_mark [OF valid] obtain t where
      f: "row_final r = Fin ((t + 4) div 8)"
      by blast
    have chain: "row_risk r =
             (if js_less (row_attendance_percent r) (Fin 70) \<or> (t + 4) div 8 < 10 then ''Critical''
              else if (t + 4) div 8 < 15 then ''Average''
              else if (t + 4) div 8 = 20 then ''Best''
              else ''Safe'')"
      by (simp add: row_risk_def risk_of_def f)
    have finite: "\<forall>p. row_attendance_percent r = Fin p \<longrightarrow>
               row_risk r =
                 (if p < 70 \<or> (t + 4) div 8 < 10 then ''Critical''
                  else if (t + 4) div 8 < 15 then ''Average''
                  else if (t + 4) div 8 = 20 then ''Best''
                  else ''Safe'')"
      by (simp add: row_risk_def risk_of_def f)
    from f chain finite valid_row_outputs(2) [OF valid] show ?thesis
      by blast
  qed
  have g: "row_grade scenario_B = ''A+''"
    by (simp add: row_grade_def grade_of_def scenario_B_values)
  have k: "row_risk scenario_B = ''Critical''"
    by (simp add: row_risk_def risk_of_def scenario_B_values)
  from general scenario_B_values g k show ?thesis
    by blast
qed

text \<open>Scenario A of the specification falls through to the last rule.\<close>

theorem risk_first_match_rules_witness:
  "\<not> hasError scenario_A
   \<and> row_attendance_percent scenario_A = Fin 80
   \<and> row_final scenario_A = Fin 16
   \<and> row_risk scenario_A = ''Safe''
   \<and> risk_html (calculateRow_body scenario_A) = risk_badge ''Safe''"
  using risk_first_match_rules [of scenario_A] scenario_A_valid
  by (auto simp: scenario_A_values)

text \<open>
  Claim C4. On a valid row the grade follows from the final mark by inclusive lower
  bounds tried from the top, the first match winning: 18 or more is A+, else 15 or more
  is A, else 12 or more is B, else 10 or more is C, else D; the grade cell shows that
  grade as a badge.
\<close>

theorem grade_thresholds:
  assumes "\<not> hasError r"
  shows "\<exists>f. row_final r = Fin f
       \<and> row_grade r =
           (if 18 \<le> f then ''A+''
            else if 15 \<le> f then ''A''
            else if 12 \<le> f then ''B''
            else if 10 \<le> f then ''C''
            else ''D'')
       \<and> grade_html (calculateRow_body r) = grade_badge (row_grade r)"
proof -
  from valid_row_final_mark [OF assms] obtain t where
    f: "row_final r = Fin ((t + 4) div 8)"
    by blast
  have "row_grade r =
           (if 18 \<le> (t + 4) div 8 then ''A+''
            else if 15 \<le> (t + 4) div 8 then ''A''
            else if 12 \<le> (t + 4) div 8 then ''B''
            else if 10 \<le> (t + 4) div 8 then ''C''
            else ''D'')"
    by (simp add: row_grade_def grade_of_def f)
  with f valid_row_outputs(1) [OF assms] show ?thesis
    by blast
qed

text \<open>Scenario A of the specification: a final mark of 16 is an A.\<close>

theorem grade_thresholds_witness:
  "\<not> hasError scenario_A
   \<and> row_final scenario_A = Fin 16
   \<and> row_grade scenario_A = ''A''
   \<and> grade_html (calculateRow_body scenario_A) = grade_badge ''A''"
  using grade_thresholds [OF scenario_A_valid] scenario_A_valid
  by (auto simp: scenario_A_values)

lemma scenario_D_values:
  "\<not> hasError scenario_D"
  "row_attendance_percent scenario_D = Fin 100"
  "row_total scenario_D = Fin 40"
  "row_final scenario_D = Fin 5"
  by (simp_all add: scenario_D_def hasError_def row_attendance_percent_def row_total_def
      total_of_def js_add_exact row_final_def final_of_eq parse_samples attendance_samples)

text \<open>
  Scenario D as the specification states it (total 40, final 5, grade D, attendance 100,
  risk Average) does not hold: a final mark of 5 is below 10, which the first risk rule
  catches.
\<close>

theorem scenario_D_risk_counterexample:
  "\<not> (row_total scenario_D = Fin 40 \<and> row_final scenario_D = Fin 5
      \<and> row_grade scenario_D = ''D''
      \<and> row_attendance_percent scenario_D = Fin 100 \<and> row_risk scenario_D = ''Average'')"
  by (simp add: row_risk_def risk_of_def scenario_D_values)

text \<open>
  Claim C5, amended. For 40 classes, 40 attended and marks 20, 20, 0, 0 the row is valid,
  the total is 40, the final mark 5, the grade D, the attendance percentage 100 and the
  risk Critical: the final mark is below 10. The cells show these values.
\<close>

theorem scenario_D_result:
  "\<not> hasError scenario_D
   \<and> row_total scenario_D = Fin 40
   \<and> row_final scenario_D = Fin 5
   \<and> row_grade scenario_D = ''D''
   \<and> row_attendance_percent scenario_D = Fin 100
   \<and> row_risk scenario_D = ''Critical''
   \<and> total_text (calculateRow_body scenario_D) = ''40''
   \<and> final_text (calculateRow_body scenario_D) = ''5''
   \<and> grade_html (calculateRow_body scenario_D) = grade_badge ''D''
   \<and> risk_html (calculateRow_body scenario_D) = risk_badge ''Critical''"
proof -
  have g: "row_grade scenario_D = ''D''"
    by (simp add: row_grade_def grade_of_def scenario_D_values)
  have k: "row_risk scenario_D = ''Critical''"
    by (simp add: row_risk_def risk_of_def scenario_D_values)
  show ?thesis
    by (simp add: calculateRow_body_def scenario_D_values g k number_to_string_def to_string_samples)
qed

lemma negative_attended_values:
  "attended negative_attended_row = Fin (- 5)"
  "total_classes negative_attended_row = Fin 10"
  "\<not> hasError negative_attended_row"
  "row_attendance_percent negative_attended_row = Fin (- 50)"
  "row_total negative_attended_row = Fin 0"
  "row_final negative_attended_row = Fin 0"
  by (simp_all add: negative_attended_row_def hasError_def row_attendance_percent_def
      row_total_def total_of_def js_add_exact row_final_def final_of_eq parse_samples
      attendance_samples)

text \<open>
  Claim C6 asks that a row with a field outside its domain, a negative number of attended
  classes included, shows the error marker and no derived value. The attendance check
  only compares the attended classes with the total, while each of the four marks is
  checked against 0 as well: with 10 classes and -5 attended the row passes validation,
  no input is marked, an attendance percentage of -50 is computed, and the cells show a
  total, a final mark, a grade badge and the risk badge Critical.
\<close>

theorem negative_attended_not_rejected:
  "attended negative_attended_row = Fin (- 5)
   \<and> \<not> hasError negative_attended_row
   \<and> \<not> attended_classes_error (calculateRow_body negative_attended_row)
   \<and> row_attendance_percent negative_attended_row = Fin (- 50)
   \<and> total_text (calculateRow_body negative_attended_row) = ''0''
   \<and> final_text (calculateRow_body negative_attended_row) = ''0''
   \<and> grade_html (calculateRow_body negative_attended_row) = grade_badge ''D''
   \<and> risk_html (calculateRow_body negative_attended_row) = risk_badge ''Critical''"
proof -
  have g: "row_grade negative_attended_row = ''D''"
    by (simp add: row_grade_def grade_of_def negative_attended_values)
  have k: "row_risk negative_attended_row = ''Critical''"
    by (simp add: row_risk_def risk_of_def negative_attended_values)
  show ?thesis
    by (simp add: calculateRow_body_def validate_def negative_attended_values g k
        number_to_string_def to_string_samples)
qed

lemma no_classes_values:
  "total_classes no_classes_row = Fin 0"
  "attended no_classes_row = Fin 0"
  "\<not> hasError no_classes_row"
  by (simp_all add: no_classes_row_def hasError_def parse_samples)

lemma division_by_zero_not_finite:
  "js_div a (Fin 0) \<noteq> Fin d"
  by (cases a) (simp_all add: js_div_def)

text \<open>
  Claim C7. With 0 classes and 0 attended on an otherwise valid row the attendance
  percentage is 0 and the row is computed as usual (the risk is then Critical). The
  division by the number of classes is guarded: the quotient by 0, which is NaN or an
  infinity for every numerator, is never used, since with 0 classes, as with any number
  of classes that is not greater than 0, the percentage is 0 by the other branch.
\<close>

theorem attendance_division_guarded:
  "(\<forall>a. (\<forall>d. js_div a (Fin 0) \<noteq> Fin d) \<and> attendance_percent (Fin 0) a = Fin 0)
   \<and> (\<forall>t a. \<not> js_less (Fin 0) t \<longrightarrow> attendance_percent t a = Fin 0)
   \<and> (total_classes r = Fin 0 \<and> attended r = Fin 0 \<and> \<not> hasError r \<longrightarrow>
        row_attendance_percent r = Fin 0
        \<and> row_risk r = ''Critical''
        \<and> total_text (calculateRow_body r) = number_to_string (row_total r)
        \<and> risk_html (calculateRow_body r) = risk_badge ''Critical'')"
proof -
  have zero: "\<forall>a. (\<forall>d. js_div a (Fin 0) \<noteq> Fin d) \<and> attendance_percent (Fin 0) a = Fin 0"
    by (simp add: division_by_zero_not_finite attendance_percent_def)
  have guard: "\<forall>t a. \<not> js_less (Fin 0) t \<longrightarrow> attendance_percent t a = Fin 0"
    by (simp add: attendance_percent_def)
  have row: "row_attendance_percent r = Fin 0
        \<and> row_risk r = ''Critical''
        \<and> total_text (calculateRow_body r) = number_to_string (row_total r)
        \<and> risk_html (calculateRow_body r) = risk_badge ''Critical''"
    if "total_classes r = Fin 0" and "attended r = Fin 0" and "\<not> hasError r"
    using that
    by (simp add: row_attendance_percent_def attendance_percent_def row_risk_def risk_of_def
        calculateRow_body_def)
  from zero guard row show ?thesis
    by blast
qed

text \<open>A row with no classes held and none attended.\<close>

theorem attendance_division_guarded_witness:
  "total_classes no_classes_row = Fin 0
   \<and> attended no_classes_row = Fin 0
   \<and> \<not> hasError no_classes_row
   \<and> js_div (attended no_classes_row) (total_classes no_classes_row) = NaN
   \<and> row_attendance_percent no_classes_row = Fin 0
   \<and> row_risk no_classes_row = ''Critical''
   \<and> risk_html (calculateRow_body no_classes_row) = risk_badge ''Critical''"
proof -
  have d: "js_div (attended no_classes_row) (total_classes no_classes_row) = NaN"
    by (simp add: no_classes_values js_div_def)
  from attendance_division_guarded [of no_classes_row] no_classes_values d show ?thesis
    by simp
qed

lemma internal1_update_reads [simp]:
  "total_classes (r\<lparr>internal1_input := s\<rparr>) = total_classes r"
  "attended (r\<lparr>internal1_input := s\<rparr>) = attended r"
  "i1 (r\<lparr>internal1_input := s\<rparr>) = parseInt_or_0 s"
  "i2 (r\<lparr>internal1_input := s\<rparr>) = i2 r"
  "assign (r\<lparr>internal1_input := s\<rparr>) = assign r"
  "sem (r\<lparr>internal1_input := s\<rparr>) = sem r"
  by (simp_all add: total_classes_def attended_def i1_def i2_def assign_def sem_def)

text \<open>
  Claim C8. Of two valid rows that differ only in the first internal mark, the one with
  the larger mark has a total and a final mark at least as large as the other's.
\<close>

theorem internal1_monotone:
  assumes "\<not> hasError r" and "\<not> hasError r'"
    and "r' = r\<lparr>internal1_input := s\<rparr>"
    and "js_less_eq (i1 r) (i1 r')"
  shows "\<exists>t t' f f'. row_total r = Fin t \<and> row_total r' = Fin t' \<and> t \<le> t'
       \<and> row_final r = Fin f \<and> row_final r' = Fin f' \<and> f \<le> f'"
proof -
  from valid_marks [OF assms(1)] obtain a b c d where
    m: "i1 r = Fin a" "i2 r = Fin b" "assign r = Fin c" "sem r = Fin d"
    and b: "0 \<le> a" "a \<le> 70" "0 \<le> b" "b \<le> 70" "0 \<le> c" "c \<le> 10" "0 \<le> d" "d \<le> 10"
    by blast
  from valid_marks [OF assms(2)] obtain a' where
    m': "i1 r' = Fin a'" and b': "0 \<le> a'" "a' \<le> 70"
    by blast
  have rest: "i2 r' = Fin b" "assign r' = Fin c" "sem r' = Fin d"
    using assms(3) m by simp_all
  have le: "a \<le> a'"
    using assms(4) m(1) m' by simp
  have t: "row_total r = Fin (a + b + c + d)"
    by (simp add: row_total_def m total_of_marks [OF b])
  have t': "row_total r' = Fin (a' + b + c + d)"
    by (simp add: row_total_def m' rest total_of_marks [OF b' b(3-8)])
  have "(a + b + c + d + 4) div 8 \<le> (a' + b + c + d + 4) div 8"
    using le by (simp add: zdiv_mono1)
  with t t' le valid_row_final [OF assms(1) t] valid_row_final [OF assms(2) t'] show ?thesis
    by (intro exI [of _ "a + b + c + d"] exI [of _ "a' + b + c + d"]
        exI [of _ "(a + b + c + d + 4) div 8"] exI [of _ "(a' + b + c + d + 4) div 8"]) simp
qed

text \<open>Scenario A with the first internal mark raised from 60 to 65.\<close>

theorem internal1_monotone_witness:
  "\<not> hasError scenario_A
   \<and> \<not> hasError (scenario_A\<lparr>internal1_input := ''65''\<rparr>)
   \<and> i1 scenario_A = Fin 60 \<and> i1 (scenario_A\<lparr>internal1_input := ''65''\<rparr>) = Fin 65
   \<and> row_total scenario_A = Fin 130
   \<and> row_total (scenario_A\<lparr>internal1_input := ''65''\<rparr>) = Fin 135
   \<and> row_final scenario_A = Fin 16
   \<and> row_final (scenario_A\<lparr>internal1_input := ''65''\<rparr>) = Fin 17"
proof -
  have b: "i1 (scenario_A\<lparr>internal1_input := ''65''\<rparr>) = Fin 65"
    "row_total (scenario_A\<lparr>internal1_input := ''65''\<rparr>) = Fin 135"
    "\<not> hasError (scenario_A\<lparr>internal1_input := ''65''\<rparr>)"
    by (simp_all add: scenario_A_def row_total_def total_of_def js_add_exact hasError_def
        parse_samples)
  have le: "js_less_eq (i1 scenario_A) (i1 (scenario_A\<lparr>internal1_input := ''65''\<rparr>))"
    by (simp add: scenario_A_values parse_samples)
  have fb: "row_final (scenario_A\<lparr>internal1_input := ''65''\<rparr>) = Fin 17"
    using valid_row_final [OF b(3) b(2)] by simp
  from internal1_monotone [OF scenario_A_valid b(3) refl le] scenario_A_valid b fb
  show ?thesis
    by (simp add: scenario_A_values parse_samples)
qed

lemma body_derived [simp]:
  "hasError (calculateRow_body r) = hasError r"
  "row_total (calculateRow_body r) = row_total r"
  "row_final (calculateRow_body r) = row_final r"
  "row_grade (calculateRow_body r) = row_grade r"
  "row_risk (calculateRow_body r) = row_risk r"
  by (simp_all add: hasError_def row_total_def row_final_def row_grade_def row_risk_def
      row_attendance_percent_def)

lemma body_flags:
  "attended_classes_error (calculateRow_body r) = js_less (total_classes r) (attended r)"
  "internal1_error (calculateRow_body r) = (js_less (i1 r) (Fin 0) \<or> js_less (Fin 70) (i1 r))"
  "internal2_error (calculateRow_body r) = (js_less (i2 r) (Fin 0) \<or> js_less (Fin 70) (i2 r))"
  "assignment_error (calculateRow_body r) = (js_less (assign r) (Fin 0) \<or> js_less (Fin 10) (assign r))"
  "seminar_error (calculateRow_body r) = (js_less (sem r) (Fin 0) \<or> js_less (Fin 10) (sem r))"
  by (simp_all add: calculateRow_body_def validate_def)

lemma body_cells:
  "total_text (calculateRow_body r) = (if hasError r then ''ERR'' else number_to_string (row_total r))"
  "final_text (calculateRow_body r) = (if hasError r then ''ERR'' else number_to_string (row_final r))"
  "final_calc_value (calculateRow_body r) = (if hasError r then ''0'' else number_to_string (row_final r))"
  "grade_html (calculateRow_body r) = (if hasError r then ''-'' else grade_badge (row_grade r))"
  "risk_html (calculateRow_body r) = (if hasError r then ''-'' else risk_badge (row_risk r))"
  "row.more (calculateRow_body r) = row.more r"
  by (simp_all add: calculateRow_body_def validate_def)

lemma calculateRow_body_twice:
  "calculateRow_body (calculateRow_body r) = calculateRow_body r"
  by (rule row.equality) (simp_all add: body_flags body_cells)

text \<open>
  Claim C9. Running the function a second time on unchanged inputs changes nothing: the
  row after two runs is the row after one run, in every cell, hidden value and error
  marking, and so is the page. A run reads nothing but the six inputs of its row.
\<close>

theorem calculateRow_idempotent:
  "calculateRow_body (calculateRow_body r) = calculateRow_body r
   \<and> calculateRow (calculateRow doc studentId) studentId = calculateRow doc studentId"
proof -
  have "calculateRow (calculateRow doc studentId) studentId = calculateRow doc studentId"
    by (cases "doc studentId") (simp_all add: calculateRow_def calculateRow_body_twice)
  with calculateRow_body_twice show ?thesis
    by blast
qed

text \<open>Two runs on the invalid row of scenario C.\<close>

theorem calculateRow_idempotent_witness:
  "calculateRow_body (calculateRow_body scenario_C) = calculateRow_body scenario_C
   \<and> total_text (calculateRow_body (calculateRow_body scenario_C)) = ''ERR''"
proof -
  have "hasError scenario_C"
    by (simp add: scenario_C_def hasError_def parse_samples)
  then have "total_text (calculateRow_body scenario_C) = ''ERR''"
    by (simp add: calculateRow_body_def)
  with calculateRow_idempotent [of scenario_C] show ?thesis
    by simp
qed

lemma unparseable_is_zero:
  "parseInt s = NaN \<Longrightarrow> parseInt_or_0 s = Fin 0"
  by (simp add: parseInt_or_0_def)

text \<open>
  An empty attended-classes input is not always left unmarked: it is read as 0, and 0
  exceeds a negative number of classes, so with \<open>-1\<close> classes the input is marked.
\<close>

theorem unparseable_attended_flagged_counterexample:
  "parseInt (attended_classes_input negative_total_row) = NaN
   \<and> attended negative_total_row = Fin 0
   \<and> total_classes negative_total_row = Fin (- 1)
   \<and> attended_classes_error (calculateRow_body negative_total_row)"
  by (simp add: negative_total_row_def enter_def body_flags attended_def total_classes_def
      parse_samples unparseable_samples)

text \<open>
  Claim C10, amended. A field that is empty or from which \<^verbatim>\<open>parseInt\<close> reads no
  number is taken as 0 before validation. For the two internal marks, the assignment and
  the seminar that 0 passes the range check and the input is not marked. For the
  attended classes the 0 is compared with the number of classes, and the input is not
  marked when that number is not negative. The number of classes has no check of its own.
\<close>

theorem unparseable_field_is_zero:
  "(parseInt (internal1_input r) = NaN \<longrightarrow>
      i1 r = Fin 0 \<and> \<not> internal1_error (calculateRow_body r))
   \<and> (parseInt (internal2_input r) = NaN \<longrightarrow>
      i2 r = Fin 0 \<and> \<not> internal2_error (calculateRow_body r))
   \<and> (parseInt (assignment_input r) = NaN \<longrightarrow>
      assign r = Fin 0 \<and> \<not> assignment_error (calculateRow_body r))
   \<and> (parseInt (seminar_input r) = NaN \<longrightarrow>
      sem r = Fin 0 \<and> \<not> seminar_error (calculateRow_body r))
   \<and> (parseInt (attended_classes_input r) = NaN \<longrightarrow>
      attended r = Fin 0
      \<and> (\<not> js_less (total_classes r) (Fin 0) \<longrightarrow>
            \<not> attended_classes_error (calculateRow_body r)))
   \<and> (parseInt (total_classes_input r) = NaN \<longrightarrow> total_classes r = Fin 0)
   \<and> parseInt '''' = NaN"
  by (simp add: body_flags i1_def i2_def assign_def sem_def attended_def total_classes_def
      unparseable_is_zero unparseable_samples)

text \<open>A row with an empty attended-classes input and letters as first internal mark.\<close>

theorem unparseable_field_is_zero_witness:
  "parseInt (internal1_input unparsed_row) = NaN
   \<and> parseInt (attended_classes_input unparsed_row) = NaN
   \<and> i1 unparsed_row = Fin 0
   \<and> attended unparsed_row = Fin 0
   \<and> total_classes unparsed_row = Fin 50
   \<and> \<not> internal1_error (calculateRow_body unparsed_row)
   \<and> \<not> attended_classes_error (calculateRow_body unparsed_row)"
proof -
  have u: "parseInt (internal1_input unparsed_row) = NaN"
    "parseInt (attended_classes_input unparsed_row) = NaN"
    by (simp_all add: unparsed_row_def enter_def unparseable_samples)
  have t: "total_classes unparsed_row = Fin 50"
    by (simp add: unparsed_row_def parse_samples)
  from unparseable_field_is_zero [of unparsed_row] u t show ?thesis
    by simp
qed

end
